theory Spec2Isabelle
  imports Complex_Main "HOL-Library.Sublist" "HOL-Library.Multiset"
    "HOL-Library.Char_ord" "HOL-Library.List_Lexorder"
begin

section \<open>Strings\<close>

text \<open>
  Python strings are modelled as \<open>string\<close> (lists of 8-bit characters); the model covers
  ASCII text. \<open>str.strip()\<close> removes leading and trailing white space, \<open>str.startswith\<close>
  is the prefix test, and \<open>x or y\<close> on strings takes \<open>y\<close> when \<open>x\<close> is empty.
\<close>

definition isspace :: "char \<Rightarrow> bool" where
  "isspace c = (of_char c \<in> {9::nat, 10, 11, 12, 13, 28, 29, 30, 31, 32})"

definition strip :: "string \<Rightarrow> string" where
  "strip s = rev (dropWhile isspace (rev (dropWhile isspace s)))"

definition startswith :: "string \<Rightarrow> string \<Rightarrow> bool" where
  "startswith s p = prefix p s"

definition str_or :: "string \<Rightarrow> string \<Rightarrow> string" where
  "str_or x y = (if x = [] then y else x)"

text \<open>
  Digits: \<open>int_of_digits\<close> is \<open>int(s)\<close> on a string of decimal digits, \<open>str_nat\<close> is
  \<open>str(n)\<close> and \<open>ndigits n\<close> is \<open>len(str(n))\<close> for a natural number.
\<close>

definition is_digit :: "char \<Rightarrow> bool" where
  "is_digit c = (CHR ''0'' \<le> c \<and> c \<le> CHR ''9'')"

definition digit_val :: "char \<Rightarrow> nat" where
  "digit_val c = of_char c - 48"

definition int_of_digits :: "string \<Rightarrow> nat" where
  "int_of_digits s = foldl (\<lambda>n c. 10 * n + digit_val c) 0 s"

definition digit_char :: "nat \<Rightarrow> char" where
  "digit_char n = ''0123456789'' ! n"

fun str_nat :: "nat \<Rightarrow> string" where
  "str_nat n = (if n < 10 then [digit_char n] else str_nat (n div 10) @ [digit_char (n mod 10)])"

fun ndigits :: "nat \<Rightarrow> nat" where
  "ndigits n = (if n < 10 then 1 else Suc (ndigits (n div 10)))"

declare str_nat.simps [simp del] ndigits.simps [simp del]

definition lower :: "char \<Rightarrow> char" where
  "lower c =
     (case map_of (zip ''ABCDEFGHIJKLMNOPQRSTUVWXYZ'' ''abcdefghijklmnopqrstuvwxyz'') c of
        None \<Rightarrow> c
      | Some l \<Rightarrow> l)"

section \<open>Exceptions\<close>

text \<open>The Python exceptions that the modelled code can raise.\<close>

datatype exn = InvalidOperation | Overflow | ValueError | TypeError

section \<open>Dates\<close>

text \<open>
  \<open>datetime.date\<close> values, their order, and the constructor's range check
  (\<open>ValueError\<close> for a year outside 1..9999 or a day the month does not have).
\<close>

record date =
  year :: nat
  month :: nat
  day :: nat

definition date_le :: "date \<Rightarrow> date \<Rightarrow> bool" where
  "date_le a b = (year a < year b \<or> (year a = year b \<and>
     (month a < month b \<or> (month a = month b \<and> day a \<le> day b))))"

definition is_leap :: "nat \<Rightarrow> bool" where
  "is_leap y = (y mod 4 = 0 \<and> (y mod 100 \<noteq> 0 \<or> y mod 400 = 0))"

definition days_in_month :: "nat \<Rightarrow> nat \<Rightarrow> nat" where
  "days_in_month y m =
     (if m = 2 then (if is_leap y then 29 else 28)
      else if m \<in> {4, 6, 9, 11} then 30 else 31)"

definition new_date :: "nat \<Rightarrow> nat \<Rightarrow> nat \<Rightarrow> exn + date" where
  "new_date y m d =
     (if 1 \<le> y \<and> y \<le> 9999 \<and> 1 \<le> m \<and> m \<le> 12 \<and> 1 \<le> d \<and> d \<le> days_in_month y m
      then Inr \<lparr>year = y, month = m, day = d\<rparr> else Inl ValueError)"

text \<open>
  \<open>datetime.strptime(s, "%Y-%m-%d")\<close> compiles the format to the regular expression
  \<^verbatim>\<open>(?P<Y>\d\d\d\d)-(?P<m>1[0-2]|0[1-9]|[1-9])-(?P<d>3[0-1]|[1-2]\d|0[1-9]|[1-9]| [1-9])\<close>
  and matches it at the start of the string. Each \<open>match_\<close> function lists the ways its
  group can match, in the order the alternatives are tried, with the text left over;
  \<open>format_matches\<close> lists the matches of the whole expression in backtracking order, of
  which \<open>re.match\<close> takes the first. Text left over after the match, no match, and an
  impossible date all raise \<open>ValueError\<close>, which \<open>parse_date\<close> turns into \<open>None\<close>.
\<close>

definition match_Y :: "string \<Rightarrow> (nat \<times> string) list" where
  "match_Y s =
     (if 4 \<le> length s \<and> list_all is_digit (take 4 s)
      then [(int_of_digits (take 4 s), drop 4 s)] else [])"

definition match_m :: "string \<Rightarrow> (nat \<times> string) list" where
  "match_m s =
     (case s of
        [] \<Rightarrow> []
      | a # t \<Rightarrow>
          (case t of
             [] \<Rightarrow> []
           | b # u \<Rightarrow>
               (if a = CHR ''1'' \<and> b \<in> set ''012'' then [(10 + digit_val b, u)] else []) @
               (if a = CHR ''0'' \<and> b \<in> set ''123456789'' then [(digit_val b, u)] else [])) @
          (if a \<in> set ''123456789'' then [(digit_val a, t)] else []))"

definition match_d :: "string \<Rightarrow> (nat \<times> string) list" where
  "match_d s =
     (case s of
        [] \<Rightarrow> []
      | a # t \<Rightarrow>
          (case t of
             [] \<Rightarrow> []
           | b # u \<Rightarrow>
               (if a = CHR ''3'' \<and> b \<in> set ''01'' then [(30 + digit_val b, u)] else []) @
               (if a \<in> set ''12'' \<and> is_digit b then [(10 * digit_val a + digit_val b, u)] else []) @
               (if a = CHR ''0'' \<and> b \<in> set ''123456789'' then [(digit_val b, u)] else [])) @
          (if a \<in> set ''123456789'' then [(digit_val a, t)] else []) @
          (case t of
             [] \<Rightarrow> []
           | b # u \<Rightarrow>
               (if a = CHR '' '' \<and> b \<in> set ''123456789'' then [(digit_val b, u)] else [])))"

definition match_lit :: "char \<Rightarrow> string \<Rightarrow> string list" where
  "match_lit c s = (case s of [] \<Rightarrow> [] | a # t \<Rightarrow> (if a = c then [t] else []))"

definition format_matches :: "string \<Rightarrow> ((nat \<times> nat \<times> nat) \<times> string) list" where
  "format_matches s =
     concat (map (\<lambda>(y, r1).
       concat (map (\<lambda>r2.
         concat (map (\<lambda>(m, r3).
           concat (map (\<lambda>r4.
             map (\<lambda>(d, r5). ((y, m, d), r5)) (match_d r4))
           (match_lit CHR ''-'' r3)))
         (match_m r2)))
       (match_lit CHR ''-'' r1)))
     (match_Y s))"

definition strptime :: "string \<Rightarrow> exn + date" where
  "strptime s =
     (case format_matches s of
        [] \<Rightarrow> Inl ValueError
      | ((y, m, d), rest) # _ \<Rightarrow>
          if rest \<noteq> [] then Inl ValueError else new_date y m d)"

definition parse_date :: "string \<Rightarrow> date option" where
  "parse_date s = (case strptime s of Inl e \<Rightarrow> None | Inr dt \<Rightarrow> Some dt)"

section \<open>Decimal numbers\<close>

text \<open>
  \<open>decimal.Decimal\<close> under the default context: precision 28, rounding
  \<open>ROUND_HALF_EVEN\<close>, \<open>Emax = 999999\<close>, \<open>Emin = -999999\<close>, and the traps
  \<open>InvalidOperation\<close>, \<open>DivisionByZero\<close> and \<open>Overflow\<close> (a trapped signal is raised as
  an exception, the others only set flags). A finite number is a sign (\<open>True\<close> for
  negative), a coefficient and an exponent, and stands for
  \<open>\<plusminus> coefficient * 10 ^ exponent\<close>; a NaN carries its sign, whether it is
  signalling, and its payload. The definitions follow the module's reference
  implementation; the limits that the C implementation puts on exponents beyond
  \<open>10 ^ 18\<close> in absolute value are not modelled.
\<close>

datatype decimal = Finite bool nat int | Infinity bool | NaN bool bool nat

definition prec :: nat where "prec = 28"
definition Emax :: int where "Emax = 999999"
definition Emin :: int where "Emin = - 999999"
definition Etiny :: int where "Etiny = Emin - int prec + 1"
definition Etop :: int where "Etop = Emax - int prec + 1"

subsection \<open>The constructor \<open>Decimal(s)\<close>\<close>

text \<open>
  The string is stripped, underscores are removed, and the rest must match, ignoring
  case, an optional sign followed by a number (digits with an optional fraction and at
  least one digit, then an optional exponent \<open>E\<close>\<open>[-+]\<close>digits), by \<open>Inf\<close> or \<open>Infinity\<close>,
  or by \<open>NaN\<close> or \<open>sNaN\<close> with optional payload digits. Anything else raises
  \<open>InvalidOperation\<close>.
\<close>

definition split_sign :: "string \<Rightarrow> bool \<times> string" where
  "split_sign s =
     (case s of
        [] \<Rightarrow> (False, [])
      | c # t \<Rightarrow> if c = CHR ''-'' then (True, t) else if c = CHR ''+'' then (False, t) else (False, s))"

definition parse_exp :: "string \<Rightarrow> int option" where
  "parse_exp s =
     (case s of
        [] \<Rightarrow> Some 0
      | c # t \<Rightarrow>
          if lower c = CHR ''e''
          then (let (neg, ds) = split_sign t
                in if ds \<noteq> [] \<and> list_all is_digit ds
                   then Some (if neg then - int (int_of_digits ds) else int (int_of_digits ds))
                   else None)
          else None)"

definition parse_number :: "string \<Rightarrow> (nat \<times> int) option" where
  "parse_number s =
     (let intpart = takeWhile is_digit s;
          r1 = dropWhile is_digit s;
          (fracpart, r2) =
            (case r1 of
               [] \<Rightarrow> ([], [])
             | c # t \<Rightarrow> if c = CHR ''.'' then (takeWhile is_digit t, dropWhile is_digit t)
                        else ([], r1))
      in if intpart = [] \<and> fracpart = [] then None
         else (case parse_exp r2 of
                 None \<Rightarrow> None
               | Some e \<Rightarrow> Some (int_of_digits (intpart @ fracpart), e - int (length fracpart))))"

definition parse_special :: "bool \<Rightarrow> string \<Rightarrow> decimal option" where
  "parse_special sign s =
     (let l = map lower s
      in if l = ''inf'' \<or> l = ''infinity'' then Some (Infinity sign)
         else if prefix ''nan'' l \<and> list_all is_digit (drop 3 l)
           then Some (NaN sign False (int_of_digits (drop 3 l)))
         else if prefix ''snan'' l \<and> list_all is_digit (drop 4 l)
           then Some (NaN sign True (int_of_digits (drop 4 l)))
         else None)"

definition Decimal :: "string \<Rightarrow> exn + decimal" where
  "Decimal s =
     (let (sign, body) = split_sign (filter (\<lambda>c. c \<noteq> CHR ''_'') (strip s))
      in case parse_number body of
           Some (c, e) \<Rightarrow> Inr (Finite sign c e)
         | None \<Rightarrow>
             (case parse_special sign body of
                Some d \<Rightarrow> Inr d
              | None \<Rightarrow> Inl InvalidOperation))"

subsection \<open>Rounding to the context\<close>

text \<open>
  \<open>round_half_even c k\<close> is \<open>c / 10 ^ k\<close> rounded to the nearest integer, a tie going to
  the even one. \<open>rescale\<close> is \<open>Decimal._rescale\<close> with that rounding, \<open>fix_nan\<close> and \<open>dec_fix\<close>
  are \<open>Decimal._fix_nan\<close> and \<open>Decimal._fix\<close>: a result with more than \<open>prec\<close> digits
  is rounded, one beyond \<open>Emax\<close> raises \<open>Overflow\<close>.
\<close>

definition round_half_even :: "nat \<Rightarrow> nat \<Rightarrow> nat" where
  "round_half_even c k =
     (let q = c div 10 ^ k; r = c mod 10 ^ k
      in if 2 * r > 10 ^ k \<or> (2 * r = 10 ^ k \<and> odd q) then q + 1 else q)"

definition rescale :: "decimal \<Rightarrow> int \<Rightarrow> decimal" where
  "rescale d xp =
     (case d of
        Finite s c e \<Rightarrow>
          if c = 0 then Finite s 0 xp
          else if e \<ge> xp then Finite s (c * 10 ^ nat (e - xp)) xp
          else Finite s (round_half_even c (nat (xp - e))) xp
      | _ \<Rightarrow> d)"

definition fix_nan :: "decimal \<Rightarrow> decimal" where
  "fix_nan d =
     (case d of
        NaN s sig p \<Rightarrow> if p \<noteq> 0 \<and> ndigits p > prec then NaN s sig (p mod 10 ^ prec) else d
      | _ \<Rightarrow> d)"

definition dec_fix :: "decimal \<Rightarrow> exn + decimal" where
  "dec_fix d =
     (case d of
        Finite s c e \<Rightarrow>
          if c = 0 then Inr (Finite s 0 (min (max e Etiny) Emax))
          else
            let exp_min = int (ndigits c) + e - int prec
            in if exp_min > Etop then Inl Overflow
               else
                 let exp_min = max exp_min Etiny
                 in if e < exp_min
                    then
                      let coeff = round_half_even c (nat (exp_min - e));
                          (coeff, exp_min) =
                            (if ndigits coeff > prec then (coeff div 10, exp_min + 1)
                             else (coeff, exp_min))
                      in if exp_min > Etop then Inl Overflow
                         else Inr (Finite s coeff exp_min)
                    else Inr d
      | Infinity s \<Rightarrow> Inr d
      | NaN s sig p \<Rightarrow> Inr (fix_nan d))"

definition is_nan :: "decimal \<Rightarrow> bool" where
  "is_nan d = (case d of NaN s sig p \<Rightarrow> True | _ \<Rightarrow> False)"

definition is_snan :: "decimal \<Rightarrow> bool" where
  "is_snan d = (case d of NaN s sig p \<Rightarrow> sig | _ \<Rightarrow> False)"

definition is_infinite :: "decimal \<Rightarrow> bool" where
  "is_infinite d = (case d of Infinity s \<Rightarrow> True | _ \<Rightarrow> False)"

definition sign_of :: "decimal \<Rightarrow> bool" where
  "sign_of d = (case d of Finite s c e \<Rightarrow> s | Infinity s \<Rightarrow> s | NaN s sig p \<Rightarrow> s)"

text \<open>
  \<open>Decimal._check_nans\<close>: with a NaN among the operands the operation ends at once,
  raising \<open>InvalidOperation\<close> for a signalling NaN and returning the first NaN otherwise.
\<close>

definition check_nans :: "decimal \<Rightarrow> decimal \<Rightarrow> (exn + decimal) option" where
  "check_nans a b =
     (if is_snan a \<or> is_snan b then Some (Inl InvalidOperation)
      else if is_nan a then Some (Inr (fix_nan a))
      else if is_nan b then Some (Inr (fix_nan b))
      else None)"

subsection \<open>\<open>quantize\<close>\<close>

definition quantize :: "decimal \<Rightarrow> decimal \<Rightarrow> exn + decimal" where
  "quantize a b =
     (case check_nans a b of
        Some r \<Rightarrow> r
      | None \<Rightarrow>
          if is_infinite a \<or> is_infinite b
          then (if is_infinite a \<and> is_infinite b then Inr a else Inl InvalidOperation)
          else
            (case (a, b) of
               (Finite s c e, Finite s' c' xp) \<Rightarrow>
                 if \<not> (Etiny \<le> xp \<and> xp \<le> Emax) then Inl InvalidOperation
                 else if c = 0 then dec_fix (Finite s 0 xp)
                 else
                   let adjusted = e + int (ndigits c) - 1
                   in if adjusted > Emax then Inl InvalidOperation
                      else if adjusted - xp + 1 > int prec then Inl InvalidOperation
                      else
                        (case rescale a xp of
                           Finite s2 c2 e2 \<Rightarrow>
                             if e2 + int (ndigits c2) - 1 > Emax then Inl InvalidOperation
                             else if ndigits c2 > prec then Inl InvalidOperation
                             else dec_fix (Finite s2 c2 e2)
                         | d \<Rightarrow> Inr d)
             | _ \<Rightarrow> Inl InvalidOperation))"

subsection \<open>Addition\<close>

text \<open>
  \<open>Decimal.__add__\<close>. \<open>normalize\<close> is \<open>_normalize\<close>: both operands are brought to one
  exponent, after an operand too small to matter at the context's precision has been
  replaced by \<open>1\<close> at an exponent just below what the other one can show.
\<close>

definition normalize :: "nat \<times> int \<Rightarrow> nat \<times> int \<Rightarrow> (nat \<times> int) \<times> (nat \<times> int)" where
  "normalize op1 op2 =
     (let (tmp, other) = (if snd op1 < snd op2 then (op2, op1) else (op1, op2));
          tmp_len = int (ndigits (fst tmp));
          other_len = int (ndigits (fst other));
          xp = snd tmp + min (- 1) (tmp_len - int prec - 2);
          other = (if other_len + snd other - 1 < xp then (1, xp) else other);
          tmp = (fst tmp * 10 ^ nat (snd tmp - snd other), snd other)
      in if snd op1 < snd op2 then (other, tmp) else (tmp, other))"

definition add_finite :: "bool \<Rightarrow> nat \<Rightarrow> int \<Rightarrow> bool \<Rightarrow> nat \<Rightarrow> int \<Rightarrow> exn + decimal" where
  "add_finite s1 c1 e1 s2 c2 e2 =
     (let xp = min e1 e2
      in if c1 = 0 \<and> c2 = 0 then dec_fix (Finite (s1 \<and> s2) 0 xp)
         else if c1 = 0 then dec_fix (rescale (Finite s2 c2 e2) (max xp (e2 - int prec - 1)))
         else if c2 = 0 then dec_fix (rescale (Finite s1 c1 e1) (max xp (e1 - int prec - 1)))
         else
           let ((n1, x1), (n2, x2)) = normalize (c1, e1) (c2, e2)
           in if s1 \<noteq> s2
              then (if n1 = n2 then dec_fix (Finite False 0 xp)
                    else if n1 < n2 then dec_fix (Finite s2 (n2 - n1) x1)
                    else dec_fix (Finite s1 (n1 - n2) x1))
              else dec_fix (Finite s1 (n1 + n2) x1))"

definition dec_add :: "decimal \<Rightarrow> decimal \<Rightarrow> exn + decimal" where
  "dec_add a b =
     (case check_nans a b of
        Some r \<Rightarrow> r
      | None \<Rightarrow>
          if is_infinite a
          then (if is_infinite b \<and> sign_of a \<noteq> sign_of b then Inl InvalidOperation else Inr a)
          else if is_infinite b then Inr b
          else
            (case (a, b) of
               (Finite s1 c1 e1, Finite s2 c2 e2) \<Rightarrow> add_finite s1 c1 e1 s2 c2 e2
             | _ \<Rightarrow> Inl InvalidOperation))"

subsection \<open>Order and printing\<close>

text \<open>
  \<open>dec_less\<close> is \<open><\<close> on numbers that are not NaN (with a NaN the comparison raises
  \<open>InvalidOperation\<close>, see \<open>sorted_desc\<close>). \<open>dec_value\<close> is the rational number a
  finite decimal stands for. \<open>dec_str\<close> is \<open>str(d)\<close>.
\<close>

definition signed :: "bool \<Rightarrow> nat \<Rightarrow> int" where
  "signed s c = (if s then - int c else int c)"

definition dec_less :: "decimal \<Rightarrow> decimal \<Rightarrow> bool" where
  "dec_less a b =
     (case (a, b) of
        (Finite s1 c1 e1, Finite s2 c2 e2) \<Rightarrow>
          signed s1 c1 * 10 ^ nat (e1 - min e1 e2) < signed s2 c2 * 10 ^ nat (e2 - min e1 e2)
      | (Infinity s, Infinity t) \<Rightarrow> s \<and> \<not> t
      | (Infinity s, _) \<Rightarrow> s
      | (_, Infinity t) \<Rightarrow> \<not> t
      | _ \<Rightarrow> False)"

definition dec_value :: "decimal \<Rightarrow> rat" where
  "dec_value d =
     (case d of
        Finite s c e \<Rightarrow>
          (if e \<ge> 0 then of_int (signed s c) * 10 ^ nat e
           else of_int (signed s c) / 10 ^ nat (- e))
      | _ \<Rightarrow> 0)"

definition dec_str :: "decimal \<Rightarrow> string" where
  "dec_str d =
     (case d of
        Infinity s \<Rightarrow> (if s then ''-'' else '''') @ ''Infinity''
      | NaN s sig p \<Rightarrow>
          (if s then ''-'' else '''') @ (if sig then ''sNaN'' else ''NaN'') @
          (if p = 0 then '''' else str_nat p)
      | Finite s c e \<Rightarrow>
          let ds = str_nat c;
              n = int (length ds);
              leftdigits = e + n;
              dotplace = (if e \<le> 0 \<and> leftdigits > - 6 then leftdigits else 1);
              mantissa =
                (if dotplace \<le> 0 then ''0.'' @ replicate (nat (- dotplace)) (CHR ''0'') @ ds
                 else if dotplace \<ge> n then ds @ replicate (nat (dotplace - n)) (CHR ''0'')
                 else take (nat dotplace) ds @ ''.'' @ drop (nat dotplace) ds);
              ex = (if leftdigits = dotplace then ''''
                    else ''E'' @ (if leftdigits < dotplace then ''-'' else ''+'') @
                         str_nat (nat \<bar>leftdigits - dotplace\<bar>))
          in (if s then ''-'' else '''') @ mantissa @ ex)"

subsection \<open>\<open>parse_amount\<close>\<close>

text \<open>
  \<open>parse_amount\<close> catches \<open>InvalidOperation\<close> and \<open>ValueError\<close> and returns \<open>None\<close> for
  them; any other exception would leave the function.
\<close>

definition catch_invalid :: "exn + decimal \<Rightarrow> exn + decimal option" where
  "catch_invalid r =
     (case r of
        Inr a \<Rightarrow> Inr (Some a)
      | Inl e \<Rightarrow> if e = InvalidOperation \<or> e = ValueError then Inr None else Inl e)"

definition parse_amount :: "string \<Rightarrow> exn + decimal option" where
  "parse_amount s =
     catch_invalid
       (case Decimal s of
          Inl e \<Rightarrow> Inl e
        | Inr a \<Rightarrow> quantize a (Finite False 1 (- 2)))"

section \<open>Rows and the store\<close>

text \<open>
  A row is the dictionary \<open>csv.DictReader\<close> yields for a line of \<open>expenses.csv\<close>: the five
  fields of \<open>CSV_FIELDS\<close>, each a string. The store is the file \<open>CSV_FILE\<close>: absent
  (\<open>None\<close>), or a header line followed by the rows in file order.
\<close>

record row =
  rid :: string
  rdate :: string
  rcategory :: string
  ramount :: string
  rdescription :: string

type_synonym store = "row list option"

definition records :: "store \<Rightarrow> row list" where
  "records st = (case st of None \<Rightarrow> [] | Some rows \<Rightarrow> rows)"

definition ensure_csv :: "store \<Rightarrow> store" where
  "ensure_csv st = (case st of None \<Rightarrow> Some [] | Some rows \<Rightarrow> Some rows)"

definition read_all :: "store \<Rightarrow> row list \<times> store" where
  "read_all st = (records (ensure_csv st), ensure_csv st)"

definition write_all :: "row list \<Rightarrow> store \<Rightarrow> store" where
  "write_all rows st = Some rows"

text \<open>
  What an operation prints, line by line: \<open>Text s\<close> for a message, \<open>RowLine r\<close> for
  \<open>format_row(r)\<close>, \<open>CategoryLine\<close> and \<open>TotalLine\<close> for the lines that show a category with
  its total and the total of a date range. An operation returns the lines it printed, or
  the exception that ended it, together with the store it leaves.
\<close>

datatype line = Text string | RowLine row | CategoryLine string decimal | TotalLine decimal

type_synonym result = "(exn + line list) \<times> store"

section \<open>Adding\<close>

text \<open>
  \<open>add_expense\<close>: \<open>today\<close> is the current date as \<open>strftime\<close> prints it and \<open>uuid\<close> the
  string of the identifier \<open>uuid.uuid4()\<close> returns; the other four arguments are the lines
  typed at the prompts (a prompt after an early return is never shown).
\<close>

definition add_expense ::
  "string \<Rightarrow> string \<Rightarrow> string \<Rightarrow> string \<Rightarrow> string \<Rightarrow> string \<Rightarrow> store \<Rightarrow> result" where
  "add_expense today uuid date_in category_in amount_in description_in st =
     (let banner = Text ''\<newline>Add a new expense (leave date blank for today).'';
          date_in = strip date_in
      in if date_in \<noteq> [] \<and> parse_date date_in = None
         then (Inr [banner, Text ''Invalid date format. Use YYYY-MM-DD.''], st)
         else
           let date = (if date_in = [] then today else date_in);
               category = str_or (strip category_in) ''misc'';
               amount_in = strip amount_in
           in case parse_amount amount_in of
                Inl e \<Rightarrow> (Inl e, st)
              | Inr None \<Rightarrow> (Inr [banner, Text ''Invalid amount.''], st)
              | Inr (Some amount) \<Rightarrow>
                  let description = strip description_in;
                      row = \<lparr>rid = uuid, rdate = date, rcategory = category,
                             ramount = dec_str amount, rdescription = description\<rparr>;
                      (rows, st1) = read_all st
                  in (Inr [banner, Text ''Expense added successfully.''],
                      write_all (rows @ [row]) st1))"

section \<open>Summaries\<close>

text \<open>
  The dictionary \<open>totals\<close> keeps its keys in the order they were first stored:
  \<open>dict_get\<close> is \<open>totals.get(k, default)\<close> and \<open>dict_set\<close> is \<open>totals[k] = v\<close>.
\<close>

definition dict_get :: "('k \<times> 'v) list \<Rightarrow> 'k \<Rightarrow> 'v \<Rightarrow> 'v" where
  "dict_get d k dflt = (case map_of d k of None \<Rightarrow> dflt | Some v \<Rightarrow> v)"

fun dict_set :: "('k \<times> 'v) list \<Rightarrow> 'k \<Rightarrow> 'v \<Rightarrow> ('k \<times> 'v) list" where
  "dict_set [] k v = [(k, v)]"
| "dict_set (p # ps) k v = (if fst p = k then (k, v) # ps else p # dict_set ps k v)"

fun totals_loop :: "(string \<times> decimal) list \<Rightarrow> row list \<Rightarrow> exn + (string \<times> decimal) list" where
  "totals_loop totals [] = Inr totals"
| "totals_loop totals (r # rs) =
     (case Decimal (ramount r) of
        Inl e \<Rightarrow> Inl e
      | Inr amt \<Rightarrow>
          (case dec_add (dict_get totals (rcategory r) (Finite False 0 (- 2))) amt of
             Inl e \<Rightarrow> Inl e
           | Inr t \<Rightarrow> totals_loop (dict_set totals (rcategory r) t) rs))"

text \<open>
  \<open>sorted(totals.items(), key=lambda x: x[1], reverse=True)\<close>: a stable sort by total,
  largest first. Sorting two or more entries compares each of them with another one, and
  a comparison with a NaN raises \<open>InvalidOperation\<close>.
\<close>

fun insert_desc :: "string \<times> decimal \<Rightarrow> (string \<times> decimal) list \<Rightarrow> (string \<times> decimal) list" where
  "insert_desc x [] = [x]"
| "insert_desc x (y # ys) =
     (if dec_less (snd x) (snd y) then y # insert_desc x ys else x # y # ys)"

definition sorted_desc :: "(string \<times> decimal) list \<Rightarrow> exn + (string \<times> decimal) list" where
  "sorted_desc xs =
     (if 2 \<le> length xs \<and> list_ex (\<lambda>x. is_nan (snd x)) xs then Inl InvalidOperation
      else Inr (foldr insert_desc xs []))"

definition summary_by_category :: "store \<Rightarrow> result" where
  "summary_by_category st =
     (let (rows, st1) = read_all st
      in if rows = [] then (Inr [Text ''\<newline>No expenses to summarize.''], st1)
         else
           (case totals_loop [] rows of
              Inl e \<Rightarrow> (Inl e, st1)
            | Inr totals \<Rightarrow>
                (case sorted_desc totals of
                   Inl e \<Rightarrow> (Inl e, st1)
                 | Inr items \<Rightarrow>
                     (Inr (Text ''\<newline>Total by category:'' #
                           map (\<lambda>(cat, tot). CategoryLine cat tot) items), st1))))"

text \<open>
  The loop of \<open>summary_by_date_range\<close>. A stored date that does not parse makes
  \<open>s <= d\<close> compare a date with \<open>None\<close>, which raises \<open>TypeError\<close>.
\<close>

fun range_loop ::
  "date \<Rightarrow> date \<Rightarrow> row list \<Rightarrow> row list \<times> decimal \<Rightarrow> exn + row list \<times> decimal" where
  "range_loop s e [] acc = Inr acc"
| "range_loop s e (r # rs) (filtered, tot) =
     (case parse_date (rdate r) of
        None \<Rightarrow> Inl TypeError
      | Some d \<Rightarrow>
          if date_le s d \<and> date_le d e
          then (case Decimal (ramount r) of
                  Inl x \<Rightarrow> Inl x
                | Inr amt \<Rightarrow>
                    (case dec_add tot amt of
                       Inl x \<Rightarrow> Inl x
                     | Inr t \<Rightarrow> range_loop s e rs (filtered @ [r], t)))
          else range_loop s e rs (filtered, tot))"

definition summary_by_date_range :: "string \<Rightarrow> string \<Rightarrow> store \<Rightarrow> result" where
  "summary_by_date_range start_in end_in st =
     (let (rows, st1) = read_all st
      in if rows = [] then (Inr [Text ''\<newline>No expenses to summarize.''], st1)
         else
           let start = strip start_in;
               end_str = strip end_in
           in case (parse_date start, parse_date end_str) of
                (Some s, Some e) \<Rightarrow>
                  if \<not> date_le s e then (Inr [Text ''Invalid date range.''], st1)
                  else
                    (case range_loop s e rows ([], Finite False 0 (- 2)) of
                       Inl x \<Rightarrow> (Inl x, st1)
                     | Inr (filtered, tot) \<Rightarrow>
                         if filtered = [] then (Inr [Text ''No expenses in that range.''], st1)
                         else
                           (Inr (Text (''\<newline>Expenses from '' @ start @ '' to '' @ end_str @ '':'') #
                                 map RowLine (sort_key rdate filtered) @ [TotalLine tot]), st1))
              | _ \<Rightarrow> (Inr [Text ''Invalid date range.''], st1))"

section \<open>Editing\<close>

text \<open>
  The loop of \<open>edit_expense\<close> stops at the first row whose id starts with the prefix;
  \<open>find_first\<close> returns that row with its index. The four inputs are the lines typed at
  the prompts for the new values.
\<close>

fun find_first :: "string \<Rightarrow> row list \<Rightarrow> nat \<Rightarrow> (nat \<times> row) option" where
  "find_first p [] idx = None"
| "find_first p (r # rs) idx =
     (if startswith (rid r) p then Some (idx, r) else find_first p rs (Suc idx))"

definition edit_expense ::
  "string \<Rightarrow> string \<Rightarrow> string \<Rightarrow> string \<Rightarrow> string \<Rightarrow> store \<Rightarrow> result" where
  "edit_expense id_in date_in category_in amount_in description_in st =
     (let id_prefix = strip id_in;
          (rows, st1) = read_all st
      in case find_first id_prefix rows 0 of
           None \<Rightarrow> (Inr [Text ''No matching expense found.''], st1)
         | Some (idx, r) \<Rightarrow>
             let shown = [Text ''Current entry:'', RowLine r];
                 new_date = str_or (strip date_in) (rdate r)
             in if parse_date new_date = None then (Inr (shown @ [Text ''Invalid date.'']), st1)
                else
                  let new_cat = str_or (strip category_in) (rcategory r);
                      new_amt = str_or (strip amount_in) (ramount r)
                  in (case parse_amount new_amt of
                        Inl e \<Rightarrow> (Inl e, st1)
                      | Inr None \<Rightarrow> (Inr (shown @ [Text ''Invalid amount.'']), st1)
                      | Inr (Some new_amt_parsed) \<Rightarrow>
                          let new_desc = str_or (strip description_in) (rdescription r);
                              updated = r\<lparr>rdate := new_date, rcategory := new_cat,
                                          ramount := dec_str new_amt_parsed,
                                          rdescription := new_desc\<rparr>
                          in (Inr (shown @ [Text ''Updated successfully.'']),
                              write_all (list_update rows idx updated) st1)))"

section \<open>Deleting\<close>

text \<open>
  \<open>delete_expense\<close>: \<open>id_in\<close> and \<open>confirm_in\<close> are the lines typed at the two prompts
  (the second prompt is only reached when some row matches).
\<close>

definition delete_expense :: "string \<Rightarrow> string \<Rightarrow> store \<Rightarrow> result" where
  "delete_expense id_in confirm_in st =
     (let id_prefix = strip id_in;
          (rows, st1) = read_all st;
          matches = filter (\<lambda>r. startswith (rid r) id_prefix) rows
      in if matches = [] then (Inr [Text ''No matching expense found.''], st1)
         else
           let found = Text ''Found:'' # map RowLine matches;
               confirm = strip confirm_in
           in if confirm = ''YES''
              then
                let new_rows = filter (\<lambda>r. \<not> startswith (rid r) id_prefix) rows
                in (Inr (found @ [Text ''Deleted successfully.'']), write_all new_rows st1)
              else (Inr (found @ [Text ''Cancelled.'']), st1))"

section \<open>Exact values of amounts\<close>

text \<open>
  What the claims about totals compare with: \<open>amount_value r\<close> is the rational number
  that the amount text of a row stands for, \<open>two_places a\<close> says that the text \<open>a\<close> is a
  finite decimal with exactly two fractional digits (the form in which \<open>add_expense\<close> and
  \<open>edit_expense\<close> store an amount), and \<open>cents\<close> is such a number in hundredths.
  \<open>in_range s e r\<close> says that the date of a row parses and lies between \<open>s\<close> and \<open>e\<close>.
\<close>

definition cents :: "decimal \<Rightarrow> int" where
  "cents d = (case d of Finite s c e \<Rightarrow> signed s c | _ \<Rightarrow> 0)"

definition two_places :: "string \<Rightarrow> bool" where
  "two_places a = (case Decimal a of Inr (Finite s c e) \<Rightarrow> e = - 2 | _ \<Rightarrow> False)"

definition amount_cents :: "row \<Rightarrow> int" where
  "amount_cents r = (case Decimal (ramount r) of Inr d \<Rightarrow> cents d | Inl e \<Rightarrow> 0)"

definition amount_value :: "row \<Rightarrow> rat" where
  "amount_value r = (case Decimal (ramount r) of Inr d \<Rightarrow> dec_value d | Inl e \<Rightarrow> 0)"

definition in_range :: "date \<Rightarrow> date \<Rightarrow> row \<Rightarrow> bool" where
  "in_range s e r =
     (case parse_date (rdate r) of None \<Rightarrow> False | Some d \<Rightarrow> date_le s d \<and> date_le d e)"

section \<open>Example data\<close>

definition ex_row1 :: row where
  "ex_row1 = \<lparr>rid = ''ab12'', rdate = ''2024-01-01'', rcategory = ''food'',
               ramount = ''5.00'', rdescription = ''a''\<rparr>"

definition ex_row2 :: row where
  "ex_row2 = \<lparr>rid = ''cd34'', rdate = ''2024-01-15'', rcategory = ''travel'',
               ramount = ''3.00'', rdescription = ''b''\<rparr>"

definition ex_row3 :: row where
  "ex_row3 = \<lparr>rid = ''ab56'', rdate = ''2024-02-01'', rcategory = ''food'',
               ramount = ''7.00'', rdescription = []\<rparr>"

definition ex_rows :: "row list" where
  "ex_rows = [ex_row1, ex_row2, ex_row3]"

definition unnormalized_row :: row where
  "unnormalized_row = \<lparr>rid = ''ab12'', rdate = ''2024-01-01'', rcategory = ''food'',
                        ramount = ''5'', rdescription = ''tea''\<rparr>"

section \<open>Evaluation rules\<close>

text \<open>Rewrite rules that evaluate the parsers and the decimal operations on literals.\<close>

lemma ndigits_small: "n < 10 \<Longrightarrow> ndigits n = 1"
  by (simp add: ndigits.simps)

lemma ndigits_large: "10 \<le> n \<Longrightarrow> ndigits n = Suc (ndigits (n div 10))"
  by (simp add: ndigits.simps)

lemma str_nat_small: "n < 10 \<Longrightarrow> str_nat n = [digit_char n]"
  by (simp add: str_nat.simps)

lemma str_nat_large: "10 \<le> n \<Longrightarrow> str_nat n = str_nat (n div 10) @ [digit_char (n mod 10)]"
  by (subst str_nat.simps) simp

lemmas dec_eval = parse_amount_def catch_invalid_def Decimal_def split_sign_def parse_number_def
  parse_exp_def parse_special_def quantize_def check_nans_def is_nan_def is_snan_def
  is_infinite_def rescale_def round_half_even_def dec_fix_def fix_nan_def
  prec_def Emax_def Emin_def Etiny_def Etop_def
  ndigits_small ndigits_large str_nat_small str_nat_large digit_char_def
  is_digit_def int_of_digits_def digit_val_def lower_def strip_def isspace_def Let_def
  dec_str_def normalize_def add_finite_def dec_add_def sign_of_def signed_def

lemmas date_eval = parse_date_def strptime_def format_matches_def match_Y_def match_m_def
  match_d_def match_lit_def new_date_def days_in_month_def is_leap_def is_digit_def
  int_of_digits_def digit_val_def

section \<open>Properties of the store and of deletion\<close>

lemma strip_empty [simp]: "strip [] = []"
  by (simp add: strip_def)

lemma startswith_empty [simp]: "startswith s []"
  by (simp add: startswith_def)

lemma records_read_all: "fst (read_all st) = records st" "records (snd (read_all st)) = records st"
  by (auto simp: read_all_def ensure_csv_def records_def split: option.splits)



section \<open>Properties of \<open>parse_amount\<close>\<close>

lemma dec_fix_quantized:
  assumes "ndigits c \<le> prec"
  shows "dec_fix (Finite s c (- 2)) = Inr (Finite s c (- 2))"
  using assms
  by (auto simp: dec_fix_def Let_def prec_def Etop_def Etiny_def Emax_def Emin_def)

lemma check_nans_cases:
  "check_nans a b = Some r \<Longrightarrow> r = Inl InvalidOperation \<or> (\<exists>d. r = Inr d \<and> is_nan d \<and> \<not> is_snan d)"
  by (auto simp: check_nans_def fix_nan_def is_nan_def is_snan_def split: if_splits decimal.splits)

lemma check_nans_None: "check_nans a b = None \<Longrightarrow> \<not> is_nan a \<and> \<not> is_nan b"
  by (auto simp: check_nans_def split: if_splits)

lemma quantize_cents_cases:
  "quantize a (Finite False 1 (- 2)) = Inl InvalidOperation \<or>
   (\<exists>s c. quantize a (Finite False 1 (- 2)) = Inr (Finite s c (- 2)) \<and> ndigits c \<le> prec) \<or>
   (\<exists>d. quantize a (Finite False 1 (- 2)) = Inr d \<and> is_nan d \<and> \<not> is_snan d)"
proof (cases "check_nans a (Finite False 1 (- 2))")
  case (Some r)
  then show ?thesis using check_nans_cases[OF Some] by (auto simp: quantize_def)
next
  case None
  show ?thesis
  proof (cases a)
    case (Finite s c e)
    have z: "dec_fix (Finite s 0 (- 2)) = Inr (Finite s 0 (- 2))"
      by (rule dec_fix_quantized) (simp add: ndigits.simps prec_def)
    show ?thesis
    proof (cases "c = 0")
      case True
      then show ?thesis using None Finite z
        by (auto simp: quantize_def is_infinite_def Etiny_def Emax_def Emin_def prec_def ndigits.simps)
    next
      case False
      obtain c2 where r: "rescale a (- 2) = Finite s c2 (- 2)"
        using Finite False by (cases "- 2 \<le> e") (auto simp: rescale_def)
      show ?thesis using None Finite False r dec_fix_quantized[of c2 s]
        by (auto simp: quantize_def is_infinite_def Etiny_def Emax_def Emin_def Let_def)
    qed
  next
    case (Infinity s)
    then show ?thesis using None by (simp add: quantize_def is_infinite_def)
  next
    case (NaN s sig p)
    then show ?thesis using check_nans_None[OF None] by (simp add: is_nan_def)
  qed
qed

lemma Decimal_exn: "Decimal s = Inl e \<Longrightarrow> e = InvalidOperation"
  by (auto simp: Decimal_def Let_def split: prod.splits option.splits)

lemma parse_amount_cases:
  "parse_amount s = Inr None \<or>
   (\<exists>sg c. parse_amount s = Inr (Some (Finite sg c (- 2))) \<and> ndigits c \<le> prec) \<or>
   (\<exists>d. parse_amount s = Inr (Some d) \<and> is_nan d \<and> \<not> is_snan d)"
proof (cases "Decimal s")
  case (Inl e)
  then show ?thesis using Decimal_exn[OF Inl] by (simp add: parse_amount_def catch_invalid_def)
next
  case (Inr a)
  then show ?thesis using quantize_cents_cases[of a]
    by (auto simp: parse_amount_def catch_invalid_def)
qed

lemma parse_amount_no_exn: "parse_amount s \<noteq> Inl e"
  using parse_amount_cases[of s] by auto

section \<open>Properties of adding and editing\<close>

lemma ensure_csv_records [simp]: "records (ensure_csv st) = records st"
  by (simp add: ensure_csv_def records_def split: option.splits)

lemma ensure_csv_nonempty: "records st \<noteq> [] \<Longrightarrow> ensure_csv st = st"
  by (simp add: ensure_csv_def records_def split: option.splits)

lemma find_first_None: "find_first p rows i = None \<longleftrightarrow> filter (\<lambda>r. startswith (rid r) p) rows = []"
  by (induction rows arbitrary: i) auto

lemma find_first_prefix:
  "list_all (\<lambda>x. \<not> startswith (rid x) p) pre \<Longrightarrow> startswith (rid r) p \<Longrightarrow>
   find_first p (pre @ r # post) i = Some (i + length pre, r)"
  by (induction pre arbitrary: i) auto

lemma find_first_Some:
  "find_first p rows i = Some (idx, r) \<Longrightarrow>
   \<exists>pre post. rows = pre @ r # post \<and> idx = i + length pre \<and> startswith (rid r) p \<and>
     list_all (\<lambda>x. \<not> startswith (rid x) p) pre"
proof (induction rows arbitrary: i)
  case Nil
  then show ?case by simp
next
  case (Cons x xs)
  show ?case
  proof (cases "startswith (rid x) p")
    case True
    with Cons.prems have "idx = i" "r = x" by auto
    with True show ?thesis by (intro exI[of _ "[]"] exI[of _ xs]) simp
  next
    case False
    with Cons.prems have "find_first p xs (Suc i) = Some (idx, r)" by simp
    from Cons.IH[OF this] obtain pre post where
      "xs = pre @ r # post" "idx = Suc i + length pre" "startswith (rid r) p"
      "list_all (\<lambda>x. \<not> startswith (rid x) p) pre" by blast
    with False show ?thesis by (intro exI[of _ "x # pre"] exI[of _ post]) simp
  qed
qed

lemma edit_expense_updates:
  assumes rows: "records st = pre @ r # post"
    and pre: "list_all (\<lambda>x. \<not> startswith (rid x) (strip id_in)) pre"
    and r: "startswith (rid r) (strip id_in)"
    and date: "parse_date (str_or (strip date_in) (rdate r)) \<noteq> None"
    and amount: "parse_amount (str_or (strip amount_in) (ramount r)) = Inr (Some a)"
  shows "edit_expense id_in date_in category_in amount_in description_in st =
           (Inr [Text ''Current entry:'', RowLine r, Text ''Updated successfully.''],
            Some (pre @ r\<lparr>rdate := str_or (strip date_in) (rdate r),
                           rcategory := str_or (strip category_in) (rcategory r),
                           ramount := dec_str a,
                           rdescription := str_or (strip description_in) (rdescription r)\<rparr> # post))"
proof -
  have ne: "records st \<noteq> []" using rows by simp
  have ra: "read_all st = (pre @ r # post, st)"
    using rows ensure_csv_nonempty[OF ne] by (simp add: read_all_def)
  have ff: "find_first (strip id_in) (pre @ r # post) 0 = Some (length pre, r)"
    using find_first_prefix[OF pre r, of post 0] by simp
  show ?thesis
    using date amount
    by (simp add: edit_expense_def Let_def ra ff write_all_def)
qed

lemma edit_expense_rejects:
  assumes rows: "records st = pre @ r # post"
    and pre: "list_all (\<lambda>x. \<not> startswith (rid x) (strip id_in)) pre"
    and r: "startswith (rid r) (strip id_in)"
  shows "parse_date (str_or (strip date_in) (rdate r)) = None \<Longrightarrow>
         edit_expense id_in date_in category_in amount_in description_in st =
           (Inr [Text ''Current entry:'', RowLine r, Text ''Invalid date.''], st)"
    and "parse_date (str_or (strip date_in) (rdate r)) \<noteq> None \<Longrightarrow>
         parse_amount (str_or (strip amount_in) (ramount r)) = Inr None \<Longrightarrow>
         edit_expense id_in date_in category_in amount_in description_in st =
           (Inr [Text ''Current entry:'', RowLine r, Text ''Invalid amount.''], st)"
proof -
  have ne: "records st \<noteq> []" using rows by simp
  have ra: "read_all st = (pre @ r # post, st)"
    using rows ensure_csv_nonempty[OF ne] by (simp add: read_all_def)
  have ff: "find_first (strip id_in) (pre @ r # post) 0 = Some (length pre, r)"
    using find_first_prefix[OF pre r, of post 0] by simp
  show "parse_date (str_or (strip date_in) (rdate r)) = None \<Longrightarrow>
         edit_expense id_in date_in category_in amount_in description_in st =
           (Inr [Text ''Current entry:'', RowLine r, Text ''Invalid date.''], st)"
    by (simp add: edit_expense_def Let_def ra ff)
  show "parse_date (str_or (strip date_in) (rdate r)) \<noteq> None \<Longrightarrow>
         parse_amount (str_or (strip amount_in) (ramount r)) = Inr None \<Longrightarrow>
         edit_expense id_in date_in category_in amount_in description_in st =
           (Inr [Text ''Current entry:'', RowLine r, Text ''Invalid amount.''], st)"
    by (simp add: edit_expense_def Let_def ra ff)
qed

lemma edit_expense_no_match:
  assumes "filter (\<lambda>x. startswith (rid x) (strip id_in)) (records st) = []"
  shows "edit_expense id_in date_in category_in amount_in description_in st =
           (Inr [Text ''No matching expense found.''], ensure_csv st)"
proof -
  have "find_first (strip id_in) (records st) 0 = None"
    using assms by (simp add: find_first_None)
  then show ?thesis by (simp add: edit_expense_def Let_def read_all_def)
qed


lemma add_expense_rejects:
  shows "strip date_in \<noteq> [] \<Longrightarrow> parse_date (strip date_in) = None \<Longrightarrow>
         add_expense today uuid date_in category_in amount_in description_in st =
           (Inr [Text ''\<newline>Add a new expense (leave date blank for today).'',
                 Text ''Invalid date format. Use YYYY-MM-DD.''], st)"
    and "strip date_in = [] \<or> parse_date (strip date_in) \<noteq> None \<Longrightarrow>
         parse_amount (strip amount_in) = Inr None \<Longrightarrow>
         add_expense today uuid date_in category_in amount_in description_in st =
           (Inr [Text ''\<newline>Add a new expense (leave date blank for today).'',
                 Text ''Invalid amount.''], st)"
  by (auto simp: add_expense_def Let_def)

section \<open>Evaluations used by the examples\<close>

lemma parse_date_ex:
  "parse_date ''2024-01-01'' = Some \<lparr>year = 2024, month = 1, day = 1\<rparr>"
  "parse_date ''2024-02-30'' = None"
  "parse_date ''2024-13-01'' = None"
  "parse_date ''2024-01-15'' \<noteq> None"
  by (simp_all add: date_eval)

lemma parse_amount_ex:
  "parse_amount ''9.999'' = Inr (Some (Finite False 1000 (- 2)))"
  "parse_amount ''12.345'' = Inr (Some (Finite False 1234 (- 2)))"
  "parse_amount ''5'' = Inr (Some (Finite False 500 (- 2)))"
  "parse_amount ''5.00'' = Inr (Some (Finite False 500 (- 2)))"
  "parse_amount ''abc'' = Inr None"
  by (simp_all add: dec_eval)

lemma dec_str_ex:
  "dec_str (Finite False 1000 (- 2)) = ''10.00''"
  "dec_str (Finite False 1234 (- 2)) = ''12.34''"
  "dec_str (Finite False 500 (- 2)) = ''5.00''"
  by (simp_all add: dec_eval)

lemma strip_ex2:
  "strip ''2024-02-30'' = ''2024-02-30''" "strip ''abc'' = ''abc''" "strip ''cd'' = ''cd''"
  "strip ''2024-13-01'' = ''2024-13-01''" "strip ''ab'' = ''ab''" "strip '' 12.345 '' = ''12.345''"
  "strip ''fun'' = ''fun''"
  by (simp_all add: strip_def isspace_def)

section \<open>The claims\<close>



text \<open>
  C2. \<open>parse_date\<close> rejects a date the calendar does not have and accepts the canonical
  form, but it also accepts month and day written without the leading zero: the pattern
  that \<open>strptime\<close> builds for \<open>%m\<close> and \<open>%d\<close> takes one digit as well as two.
\<close>

theorem parse_date_accepts_unpadded:
  "parse_date ''2024-2-5'' = Some \<lparr>year = 2024, month = 2, day = 5\<rparr> \<and>
   parse_date ''2024-02-05'' = Some \<lparr>year = 2024, month = 2, day = 5\<rparr> \<and>
   parse_date ''2024-02-30'' = None"
  by (simp add: date_eval)




text \<open>
  C4. When \<open>add_expense\<close> or \<open>edit_expense\<close> rejects a date or an amount, it prints the
  rejection and returns the store it was given: nothing is written.
\<close>

theorem validation_failure_persists_nothing:
  "(strip date_in \<noteq> [] \<and> parse_date (strip date_in) = None \<longrightarrow>
      add_expense today uuid date_in category_in amount_in description_in st =
        (Inr [Text ''\<newline>Add a new expense (leave date blank for today).'',
              Text ''Invalid date format. Use YYYY-MM-DD.''], st)) \<and>
   ((strip date_in = [] \<or> parse_date (strip date_in) \<noteq> None) \<and>
    parse_amount (strip amount_in) = Inr None \<longrightarrow>
      add_expense today uuid date_in category_in amount_in description_in st =
        (Inr [Text ''\<newline>Add a new expense (leave date blank for today).'',
              Text ''Invalid amount.''], st)) \<and>
   (records st = pre @ r # post \<and>
    list_all (\<lambda>x. \<not> startswith (rid x) (strip id_in)) pre \<and>
    startswith (rid r) (strip id_in) \<longrightarrow>
      (parse_date (str_or (strip date_in) (rdate r)) = None \<longrightarrow>
         edit_expense id_in date_in category_in amount_in description_in st =
           (Inr [Text ''Current entry:'', RowLine r, Text ''Invalid date.''], st)) \<and>
      (parse_date (str_or (strip date_in) (rdate r)) \<noteq> None \<and>
       parse_amount (str_or (strip amount_in) (ramount r)) = Inr None \<longrightarrow>
         edit_expense id_in date_in category_in amount_in description_in st =
           (Inr [Text ''Current entry:'', RowLine r, Text ''Invalid amount.''], st)))"
  by (intro conjI impI; (elim conjE)?)
    (rule add_expense_rejects edit_expense_rejects; assumption)+

theorem validation_failure_persists_nothing_witness:
  "snd (add_expense ''2024-03-01'' ''ef78'' ''2024-02-30'' ''food'' ''1.00'' ''x'' (Some ex_rows))
     = Some ex_rows \<and>
   snd (add_expense ''2024-03-01'' ''ef78'' '''' ''food'' ''abc'' ''x'' (Some ex_rows))
     = Some ex_rows \<and>
   snd (edit_expense ''cd'' ''2024-13-01'' '''' '''' '''' (Some ex_rows)) = Some ex_rows \<and>
   snd (edit_expense ''cd'' '''' '''' ''abc'' '''' (Some ex_rows)) = Some ex_rows"
proof -
  have rows: "records (Some ex_rows) = [ex_row1] @ (ex_row2) # [ex_row3]"
    by (simp add: records_def ex_rows_def)
  have pre: "list_all (\<lambda>x. \<not> startswith (rid x) ''cd'') [ex_row1]"
    and r: "startswith (rid (ex_row2)) ''cd''"
    and d: "rdate (ex_row2) = ''2024-01-15''"
    by (simp_all add: ex_rows_def ex_row1_def ex_row2_def ex_row3_def startswith_def)
  note t = validation_failure_persists_nothing
  have 1: "snd (add_expense ''2024-03-01'' ''ef78'' ''2024-02-30'' ''food'' ''1.00'' ''x''
      (Some ex_rows)) = Some ex_rows"
    using t[where date_in = "''2024-02-30''" and today = "''2024-03-01''" and uuid = "''ef78''"
        and category_in = "''food''" and amount_in = "''1.00''" and description_in = "''x''"
        and st = "Some ex_rows"]
    by (simp add: strip_ex2 parse_date_ex)
  have 2: "snd (add_expense ''2024-03-01'' ''ef78'' '''' ''food'' ''abc'' ''x'' (Some ex_rows))
      = Some ex_rows"
    using t[where date_in = "''''" and today = "''2024-03-01''" and uuid = "''ef78''"
        and category_in = "''food''" and amount_in = "''abc''" and description_in = "''x''"
        and st = "Some ex_rows"]
    by (simp add: strip_ex2 parse_amount_ex)
  have 3: "snd (edit_expense ''cd'' ''2024-13-01'' '''' '''' '''' (Some ex_rows)) = Some ex_rows"
    using t[where date_in = "''2024-13-01''" and category_in = "''''" and amount_in = "''''"
        and description_in = "''''" and st = "Some ex_rows" and pre = "[ex_row1]"
        and r = "ex_row2" and post = "[ex_row3]" and id_in = "''cd''"] rows pre r
    by (simp add: strip_ex2 parse_date_ex str_or_def)
  have 4: "snd (edit_expense ''cd'' '''' '''' ''abc'' '''' (Some ex_rows)) = Some ex_rows"
    using t[where date_in = "''''" and category_in = "''''" and amount_in = "''abc''"
        and description_in = "''''" and st = "Some ex_rows" and pre = "[ex_row1]"
        and r = "ex_row2" and post = "[ex_row3]" and id_in = "''cd''"] rows pre r
    by (simp add: strip_ex2 parse_amount_ex parse_date_ex str_or_def d)
  from 1 2 3 4 show ?thesis by simp
qed

text \<open>
  C5. With \<open>r\<close> the first row whose id starts with the prefix, and the date and amount
  to be stored valid, \<open>edit_expense\<close> replaces \<open>r\<close> in place and leaves the rows before
  and after it as they are. The id is kept; a blank date, category or description keeps
  the old value; the amount stored is the two-place form of the amount typed, or of the
  old amount when the input is blank, so that a blank edit of a row whose amount is
  already in that form changes nothing. Without a matching row nothing is written.
\<close>

theorem edit_first_match_in_place:
  "(records st = pre @ r # post \<and>
    list_all (\<lambda>x. \<not> startswith (rid x) (strip id_in)) pre \<and>
    startswith (rid r) (strip id_in) \<and>
    parse_date (str_or (strip date_in) (rdate r)) \<noteq> None \<and>
    parse_amount (str_or (strip amount_in) (ramount r)) = Inr (Some a) \<longrightarrow>
      (\<exists>r'. edit_expense id_in date_in category_in amount_in description_in st =
               (Inr [Text ''Current entry:'', RowLine r, Text ''Updated successfully.''],
                Some (pre @ r' # post)) \<and>
            rid r' = rid r \<and>
            rdate r' = (if strip date_in = [] then rdate r else strip date_in) \<and>
            rcategory r' = (if strip category_in = [] then rcategory r else strip category_in) \<and>
            ramount r' = dec_str a \<and>
            rdescription r' =
              (if strip description_in = [] then rdescription r else strip description_in) \<and>
            (strip date_in = [] \<and> strip category_in = [] \<and> strip amount_in = [] \<and>
             strip description_in = [] \<and> dec_str a = ramount r \<longrightarrow> r' = r))) \<and>
   (filter (\<lambda>x. startswith (rid x) (strip id_in)) (records st) = [] \<longrightarrow>
      edit_expense id_in date_in category_in amount_in description_in st =
        (Inr [Text ''No matching expense found.''], ensure_csv st) \<and>
      records (ensure_csv st) = records st)"
proof -
  have "\<exists>r'. edit_expense id_in date_in category_in amount_in description_in st =
               (Inr [Text ''Current entry:'', RowLine r, Text ''Updated successfully.''],
                Some (pre @ r' # post)) \<and>
            rid r' = rid r \<and>
            rdate r' = (if strip date_in = [] then rdate r else strip date_in) \<and>
            rcategory r' = (if strip category_in = [] then rcategory r else strip category_in) \<and>
            ramount r' = dec_str a \<and>
            rdescription r' =
              (if strip description_in = [] then rdescription r else strip description_in) \<and>
            (strip date_in = [] \<and> strip category_in = [] \<and> strip amount_in = [] \<and>
             strip description_in = [] \<and> dec_str a = ramount r \<longrightarrow> r' = r)"
    if h: "records st = pre @ r # post"
      "list_all (\<lambda>x. \<not> startswith (rid x) (strip id_in)) pre"
      "startswith (rid r) (strip id_in)"
      "parse_date (str_or (strip date_in) (rdate r)) \<noteq> None"
      "parse_amount (str_or (strip amount_in) (ramount r)) = Inr (Some a)"
    using edit_expense_updates[OF h, where category_in = category_in
        and description_in = description_in]
    by (auto simp: str_or_def)
  moreover have "edit_expense id_in date_in category_in amount_in description_in st =
        (Inr [Text ''No matching expense found.''], ensure_csv st)"
    if "filter (\<lambda>x. startswith (rid x) (strip id_in)) (records st) = []"
    using edit_expense_no_match[OF that] .
  ultimately show ?thesis by simp
qed

theorem edit_first_match_in_place_witness:
  "edit_expense ''ab'' '''' ''fun'' '' 12.345 '' '''' (Some ex_rows) =
     (Inr [Text ''Current entry:'', RowLine (ex_row1), Text ''Updated successfully.''],
      Some [(ex_row1)\<lparr>rcategory := ''fun'', ramount := ''12.34''\<rparr>, ex_row2, ex_row3]) \<and>
   edit_expense ''zz'' '''' ''fun'' '' 12.345 '' '''' (Some ex_rows) =
     (Inr [Text ''No matching expense found.''], Some ex_rows)"
proof -
  have rows: "records (Some ex_rows) = [] @ (ex_row1) # [ex_row2, ex_row3]"
    by (simp add: records_def ex_rows_def)
  have r: "startswith (rid (ex_row1)) ''ab''"
    and d: "rdate (ex_row1) = ''2024-01-01''"
    and nm: "filter (\<lambda>x. startswith (rid x) ''zz'') ex_rows = []"
    by (simp_all add: ex_rows_def ex_row1_def ex_row2_def ex_row3_def startswith_def)
  have z: "strip ''zz'' = ''zz''" by (simp add: strip_def isspace_def)
  note t = edit_first_match_in_place
  from t[where st = "Some ex_rows" and pre = "[]" and r = "ex_row1"
      and post = "[ex_row2, ex_row3]" and id_in = "''ab''" and date_in = "''''"
      and amount_in = "'' 12.345 ''" and a = "Finite False 1234 (- 2)"
      and category_in = "''fun''" and description_in = "''''"] rows r
  obtain r' where e: "edit_expense ''ab'' '''' ''fun'' '' 12.345 '' '''' (Some ex_rows) =
     (Inr [Text ''Current entry:'', RowLine (ex_row1), Text ''Updated successfully.''],
      Some (r' # [ex_row2, ex_row3]))"
    and f: "rid r' = rid (ex_row1)" "rdate r' = rdate (ex_row1)" "rcategory r' = ''fun''"
      "ramount r' = ''12.34''" "rdescription r' = rdescription (ex_row1)"
    by (auto simp: strip_ex2 parse_date_ex parse_amount_ex dec_str_ex str_or_def d)
  from f have "r' = (ex_row1)\<lparr>rcategory := ''fun'', ramount := ''12.34''\<rparr>"
    by (cases r') simp
  moreover from t[where st = "Some ex_rows" and id_in = "''zz''" and date_in = "''''"
      and amount_in = "'' 12.345 ''" and category_in = "''fun''" and description_in = "''''"] nm
  have "edit_expense ''zz'' '''' ''fun'' '' 12.345 '' '''' (Some ex_rows) =
     (Inr [Text ''No matching expense found.''], Some ex_rows)"
    by (simp add: z records_def ensure_csv_def)
  ultimately show ?thesis using e by simp
qed

text \<open>
  C5 as stated fails where the stored amount is not in two-place form: a blank amount
  does not keep the stored text \<open>5\<close>, which is written back as \<open>5.00\<close>.
\<close>

theorem edit_blank_amount_counterexample:
  "ramount unnormalized_row = ''5'' \<and>
   edit_expense ''ab12'' '''' '''' '''' '''' (Some [unnormalized_row]) =
     (Inr [Text ''Current entry:'', RowLine unnormalized_row, Text ''Updated successfully.''],
      Some [unnormalized_row\<lparr>ramount := ''5.00''\<rparr>])"
proof -
  have s: "strip ''ab12'' = ''ab12''" by (simp add: strip_def isspace_def)
  have "find_first ''ab12'' [unnormalized_row] 0 = Some (0, unnormalized_row)"
    by (simp add: unnormalized_row_def startswith_def)
  then show ?thesis
    by (simp add: edit_expense_def Let_def read_all_def ensure_csv_def records_def s str_or_def
        write_all_def parse_amount_ex dec_str_ex parse_date_ex)
      (simp add: unnormalized_row_def parse_date_ex parse_amount_ex dec_str_ex startswith_def
        write_all_def str_or_def)
qed

text \<open>
  C8. \<open>parse_amount\<close> quantizes to two places, half to even, and returns \<open>None\<close> for text
  that is no number; but the text \<open>NaN\<close> is a \<open>Decimal\<close>, \<open>quantize\<close> hands a quiet NaN
  back unchanged, and so \<open>parse_amount\<close> returns a NaN: neither a number with two
  fractional digits nor \<open>None\<close>.
\<close>

theorem parse_amount_accepts_nan:
  "parse_amount ''NaN'' = Inr (Some (NaN False False 0)) \<and>
   dec_str (NaN False False 0) = ''NaN'' \<and>
   parse_amount ''abc'' = Inr None \<and>
   parse_amount ''12.345'' = Inr (Some (Finite False 1234 (- 2)))"
  by (simp add: dec_eval)

text \<open>
  C10. Every id starts with the empty string. On a store that has rows, an empty (or
  blank) prefix makes a confirmed delete remove every row, and makes \<open>edit_expense\<close> work
  on the first row: that row is the one shown and the only one that can change.
\<close>

theorem empty_prefix_matches_all:
  "startswith ident [] \<and>
   (strip id_in = [] \<and> records st \<noteq> [] \<longrightarrow>
      (strip confirm_in = ''YES'' \<longrightarrow>
         delete_expense id_in confirm_in st =
           (Inr (Text ''Found:'' # map RowLine (records st) @ [Text ''Deleted successfully.'']),
            Some [])) \<and>
      find_first (strip id_in) (records st) 0 = Some (0, hd (records st)) \<and>
      (\<exists>msg. fst (edit_expense id_in date_in category_in amount_in description_in st) =
               Inr [Text ''Current entry:'', RowLine (hd (records st)), msg]) \<and>
      rid (hd (records (snd (edit_expense id_in date_in category_in amount_in description_in st))))
        = rid (hd (records st)) \<and>
      tl (records (snd (edit_expense id_in date_in category_in amount_in description_in st)))
        = tl (records st))"
proof -
  have "delete_expense id_in confirm_in st =
           (Inr (Text ''Found:'' # map RowLine (records st) @ [Text ''Deleted successfully.'']),
            Some [])"
    if "strip id_in = []" "records st \<noteq> []" "strip confirm_in = ''YES''"
    using that by (simp add: delete_expense_def Let_def read_all_def write_all_def)
  moreover have "find_first (strip id_in) (records st) 0 = Some (0, hd (records st))"
    if "strip id_in = []" "records st \<noteq> []"
    using that by (cases "records st") simp_all
  moreover have "(\<exists>msg. fst (edit_expense id_in date_in category_in amount_in description_in st) =
               Inr [Text ''Current entry:'', RowLine (hd (records st)), msg]) \<and>
      rid (hd (records (snd (edit_expense id_in date_in category_in amount_in description_in st))))
        = rid (hd (records st)) \<and>
      tl (records (snd (edit_expense id_in date_in category_in amount_in description_in st)))
        = tl (records st)"
    if h: "strip id_in = []" "records st \<noteq> []"
  proof -
    obtain r rs where rows: "records st = [] @ r # rs"
      using h(2) by (cases "records st") auto
    have pre: "list_all (\<lambda>x. \<not> startswith (rid x) (strip id_in)) []" by simp
    have r: "startswith (rid r) (strip id_in)" by (simp add: h(1))
    show ?thesis
    proof (cases "parse_date (str_or (strip date_in) (rdate r)) = None")
      case True
      from edit_expense_rejects(1)[OF rows pre r True, where category_in = category_in
          and amount_in = amount_in and description_in = description_in]
      show ?thesis using rows by simp
    next
      case False
      show ?thesis
      proof (cases "parse_amount (str_or (strip amount_in) (ramount r))")
        case (Inl e)
        then show ?thesis using parse_amount_no_exn by blast
      next
        case (Inr res)
        show ?thesis
        proof (cases res)
          case None
          from edit_expense_rejects(2)[OF rows pre r False, where amount_in = amount_in
              and category_in = category_in and description_in = description_in] Inr None
          show ?thesis using rows by simp
        next
          case (Some a)
          from edit_expense_updates[OF rows pre r False, where amount_in = amount_in and a = a
              and category_in = category_in and description_in = description_in] Inr Some
          show ?thesis using rows by (simp add: records_def)
        qed
      qed
    qed
  qed
  ultimately show ?thesis by simp
qed

theorem empty_prefix_matches_all_witness:
  "strip ''  '' = [] \<and> records (Some ex_rows) \<noteq> [] \<and>
   snd (delete_expense ''  '' ''YES'' (Some ex_rows)) = Some [] \<and>
   find_first (strip ''  '') (records (Some ex_rows)) 0 = Some (0, ex_row1)"
proof -
  have s: "strip ''  '' = []" "strip ''YES'' = ''YES''"
    by (simp_all add: strip_def isspace_def)
  have n: "records (Some ex_rows) \<noteq> []" and h: "hd (records (Some ex_rows)) = ex_row1"
    by (simp_all add: records_def ex_rows_def)
  from empty_prefix_matches_all[where id_in = "''  ''" and st = "Some ex_rows"
      and confirm_in = "''YES''"] s n
  have "snd (delete_expense ''  '' ''YES'' (Some ex_rows)) = Some []"
    and "find_first (strip ''  '') (records (Some ex_rows)) 0 = Some (0, hd (records (Some ex_rows)))"
    by simp_all
  with s n h show ?thesis by simp
qed


end
